theory Spec2Isabelle
  imports Main
begin

section \<open>Hosting and release pipeline declarations of amplify/custom/pipeline/resource.ts\<close>

text \<open>
  The source file declares cloud resources through an infrastructure library: every
  \<^verbatim>\<open>new X(stack, id, props)\<close> registers a construct under \<^verbatim>\<open>id\<close> in the stack, and methods
  such as \<^verbatim>\<open>addStage\<close> or \<^verbatim>\<open>addToRolePolicy\<close> change a construct that is already registered.
  The stack is therefore modelled as an explicit store from construct ids to constructs,
  threaded through \<open>defineFrontend\<close> and \<open>definePipeline\<close>; the objects the source holds in
  local variables are handles into that store.  What the library or the provider decides
  (values of attributes such as the domain name of a distribution, and whether a construct
  is accepted at all) is a parameter of the stack.  The store holds the constructs the source
  registers by name; helper constructs that the library registers on its own account, and
  the way the library generates the strings standing for attribute values, are outside the
  model, so nothing here speaks about two runs of the library.
\<close>

subsection \<open>Enumerations of the library\<close>

datatype BlockPublicAccess = BLOCK_ALL | BLOCK_ACLS

datatype RemovalPolicy = DESTROY | RETAIN | SNAPSHOT

datatype ViewerProtocolPolicy = HTTPS_ONLY | REDIRECT_TO_HTTPS | ALLOW_ALL

datatype LinuxBuildImage = STANDARD_5_0 | STANDARD_6_0 | STANDARD_7_0

datatype ComputeType = SMALL | MEDIUM | LARGE

datatype GitHubTrigger = NONE | POLL | WEBHOOK

subsection \<open>Object literals\<close>

text \<open>
  \<^verbatim>\<open>BuildSpec.fromObject\<close> takes an arbitrary object literal.  Keys keep their order; a key
  that the literal does not mention is absent.
\<close>

datatype json =
    JString string
  | JNumber int
  | JArray "json list"
  | JObject "(string \<times> json) list"

fun lookupKey :: "json \<Rightarrow> string \<Rightarrow> json option" where
  "lookupKey (JObject kvs) k = map_of kvs k"
| "lookupKey (JString s) k = None"
| "lookupKey (JNumber n) k = None"
| "lookupKey (JArray xs) k = None"

fun lookupPath :: "json \<Rightarrow> string list \<Rightarrow> json option" where
  "lookupPath j [] = Some j"
| "lookupPath j (k # ks) = (case lookupKey j k of None \<Rightarrow> None | Some j' \<Rightarrow> lookupPath j' ks)"

subsection \<open>Handles and props\<close>

text \<open>
  A handle carries the id of its construct and the attributes the source reads from it.
  Fields that share a name in the source share it here and are written qualified.
\<close>

record Bucket =
  bucketNode :: string
  bucketName :: string

record Distribution =
  distributionNode :: string
  distributionDomainName :: string
  distributionId :: string

datatype SecretValue = secretsManager string

record ISecret =
  secretNode :: string
  secretValue :: SecretValue

record PipelineProject =
  projectNode :: string

record Pipeline =
  pipelineNode :: string
  pipelineName :: string

datatype Artifact = Artifact string

record BucketProps =
  bucketName :: "string option"
  blockPublicAccess :: BlockPublicAccess
  removalPolicy :: RemovalPolicy
  autoDeleteObjects :: bool

datatype Origin =
    withOriginAccessControl Bucket
  | withOriginAccessIdentity Bucket
  | withBucketDefaults Bucket

record BehaviorOptions =
  origin :: Origin
  viewerProtocolPolicy :: ViewerProtocolPolicy

record ErrorResponse =
  httpStatus :: int
  responseHttpStatus :: int
  responsePagePath :: string

record DistributionProps =
  defaultBehavior :: BehaviorOptions
  defaultRootObject :: string
  errorResponses :: "ErrorResponse list"

record BuildEnvironment =
  buildImage :: LinuxBuildImage
  computeType :: ComputeType

record PipelineProjectProps =
  projectName :: string
  environment :: BuildEnvironment
  environmentVariables :: "(string \<times> string) list"
  buildSpec :: json

record PolicyStatement =
  actions :: "string list"
  resources :: "string list"

text \<open>
  What a build project's role has been given: statements added with
  \<^verbatim>\<open>addToRolePolicy\<close>, and read/write grants on a bucket made with \<^verbatim>\<open>grantReadWrite\<close>.
\<close>

datatype RoleGrant = Statement PolicyStatement | ReadWrite Bucket

record GitHubSourceActionProps =
  actionName :: string
  owner :: string
  repo :: string
  branch :: string
  oauthToken :: SecretValue
  output' :: Artifact
  trigger :: GitHubTrigger

record CodeBuildActionProps =
  actionName :: string
  project :: PipelineProject
  input :: Artifact
  extraInputs :: "Artifact list option"
  outputs :: "Artifact list option"

datatype Action =
    GitHubSourceAction GitHubSourceActionProps
  | CodeBuildAction CodeBuildActionProps

record StageProps =
  stageName :: string
  actions :: "Action list"

record CodePipelineProps =
  pipelineName :: string

subsection \<open>The stack as a store of constructs\<close>

datatype Construct =
    BucketC BucketProps
  | DistributionC DistributionProps
  | SecretC string
  | PipelineProjectC PipelineProjectProps "RoleGrant list"
  | PipelineC CodePipelineProps "StageProps list"
  | CfnOutputC string

datatype SynthError =
    DuplicateConstruct string
  | ValidationFailed string
  | UnknownConstruct string

record Stack =
  account :: string
  children :: "(string \<times> Construct) list"
  attribute :: "string \<Rightarrow> string \<Rightarrow> string"
  accepts :: "string \<Rightarrow> Construct \<Rightarrow> bool"

definition tryFindChild :: "Stack \<Rightarrow> string \<Rightarrow> Construct option" where
  "tryFindChild stack cid = map_of (children stack) cid"

text \<open>
  Registering a construct raises when the id is already taken in the stack or when the
  library rejects the construct; otherwise the construct is appended.
\<close>

definition addChild :: "Stack \<Rightarrow> string \<Rightarrow> Construct \<Rightarrow> SynthError + Stack" where
  "addChild stack cid c =
     (if cid \<in> set (map fst (children stack)) then Inl (DuplicateConstruct cid)
      else if \<not> accepts stack cid c then Inl (ValidationFailed cid)
      else Inr (stack\<lparr>children := children stack @ [(cid, c)]\<rparr>))"

fun replaceChild :: "string \<Rightarrow> Construct \<Rightarrow> (string \<times> Construct) list \<Rightarrow> (string \<times> Construct) list" where
  "replaceChild cid c [] = []"
| "replaceChild cid c ((i, x) # rest) =
     (if i = cid then (i, c) # replaceChild cid c rest else (i, x) # replaceChild cid c rest)"

text \<open>
  A method call on a registered construct: \<open>f\<close> is the change, undefined on constructs of
  another kind; the library validates the changed construct.
\<close>

definition modifyChild ::
  "Stack \<Rightarrow> string \<Rightarrow> (Construct \<Rightarrow> Construct option) \<Rightarrow> SynthError + (unit \<times> Stack)" where
  "modifyChild stack cid f =
     (case map_of (children stack) cid of
        None \<Rightarrow> Inl (UnknownConstruct cid)
      | Some c \<Rightarrow>
          (case f c of
             None \<Rightarrow> Inl (UnknownConstruct cid)
           | Some c' \<Rightarrow>
               if accepts stack cid c'
               then Inr ((), stack\<lparr>children := replaceChild cid c' (children stack)\<rparr>)
               else Inl (ValidationFailed cid)))"

text \<open>Sequencing: an error raised by a step ends the function.\<close>

definition andThen ::
  "SynthError + ('a \<times> Stack) \<Rightarrow> ('a \<Rightarrow> Stack \<Rightarrow> SynthError + 'b) \<Rightarrow> SynthError + 'b" where
  "andThen m k = (case m of Inl e \<Rightarrow> Inl e | Inr (x, stack) \<Rightarrow> k x stack)"

subsection \<open>Constructors and methods of the library, as the source calls them\<close>

definition newBucket :: "Stack \<Rightarrow> string \<Rightarrow> BucketProps \<Rightarrow> SynthError + (Bucket \<times> Stack)" where
  "newBucket stack cid props =
     (case addChild stack cid (BucketC props) of
        Inl e \<Rightarrow> Inl e
      | Inr stack' \<Rightarrow>
          Inr (\<lparr>bucketNode = cid, Bucket.bucketName = attribute stack cid ''bucketName''\<rparr>, stack'))"

definition newDistribution ::
  "Stack \<Rightarrow> string \<Rightarrow> DistributionProps \<Rightarrow> SynthError + (Distribution \<times> Stack)" where
  "newDistribution stack cid props =
     (case addChild stack cid (DistributionC props) of
        Inl e \<Rightarrow> Inl e
      | Inr stack' \<Rightarrow>
          Inr (\<lparr>distributionNode = cid,
                distributionDomainName = attribute stack cid ''distributionDomainName'',
                distributionId = attribute stack cid ''distributionId''\<rparr>, stack'))"

definition newCfnOutput :: "Stack \<Rightarrow> string \<Rightarrow> string \<Rightarrow> SynthError + (unit \<times> Stack)" where
  "newCfnOutput stack cid v =
     (case addChild stack cid (CfnOutputC v) of
        Inl e \<Rightarrow> Inl e
      | Inr stack' \<Rightarrow> Inr ((), stack'))"

definition fromSecretNameV2 :: "Stack \<Rightarrow> string \<Rightarrow> string \<Rightarrow> SynthError + (ISecret \<times> Stack)" where
  "fromSecretNameV2 stack cid secretName =
     (case addChild stack cid (SecretC secretName) of
        Inl e \<Rightarrow> Inl e
      | Inr stack' \<Rightarrow>
          Inr (\<lparr>secretNode = cid, secretValue = secretsManager secretName\<rparr>, stack'))"

definition newPipelineProject ::
  "Stack \<Rightarrow> string \<Rightarrow> PipelineProjectProps \<Rightarrow> SynthError + (PipelineProject \<times> Stack)" where
  "newPipelineProject stack cid props =
     (case addChild stack cid (PipelineProjectC props []) of
        Inl e \<Rightarrow> Inl e
      | Inr stack' \<Rightarrow> Inr (\<lparr>projectNode = cid\<rparr>, stack'))"

definition newPipeline ::
  "Stack \<Rightarrow> string \<Rightarrow> CodePipelineProps \<Rightarrow> SynthError + (Pipeline \<times> Stack)" where
  "newPipeline stack cid props =
     (case addChild stack cid (PipelineC props []) of
        Inl e \<Rightarrow> Inl e
      | Inr stack' \<Rightarrow>
          Inr (\<lparr>pipelineNode = cid,
                Pipeline.pipelineName = attribute stack cid ''pipelineName''\<rparr>, stack'))"

fun withGrant :: "RoleGrant \<Rightarrow> Construct \<Rightarrow> Construct option" where
  "withGrant g (PipelineProjectC props grants) = Some (PipelineProjectC props (grants @ [g]))"
| "withGrant g (BucketC p) = None"
| "withGrant g (DistributionC p) = None"
| "withGrant g (SecretC n) = None"
| "withGrant g (PipelineC p stages) = None"
| "withGrant g (CfnOutputC v) = None"

fun withStage :: "StageProps \<Rightarrow> Construct \<Rightarrow> Construct option" where
  "withStage st (PipelineC props stages) = Some (PipelineC props (stages @ [st]))"
| "withStage st (BucketC p) = None"
| "withStage st (DistributionC p) = None"
| "withStage st (SecretC n) = None"
| "withStage st (PipelineProjectC p grants) = None"
| "withStage st (CfnOutputC v) = None"

definition addToRolePolicy ::
  "Stack \<Rightarrow> PipelineProject \<Rightarrow> PolicyStatement \<Rightarrow> SynthError + (unit \<times> Stack)" where
  "addToRolePolicy stack proj statement =
     modifyChild stack (projectNode proj) (withGrant (Statement statement))"

definition grantReadWrite ::
  "Stack \<Rightarrow> Bucket \<Rightarrow> PipelineProject \<Rightarrow> SynthError + (unit \<times> Stack)" where
  "grantReadWrite stack bucket identity =
     modifyChild stack (projectNode identity) (withGrant (ReadWrite bucket))"

definition addStage :: "Stack \<Rightarrow> Pipeline \<Rightarrow> StageProps \<Rightarrow> SynthError + (unit \<times> Stack)" where
  "addStage stack pipeline stage =
     modifyChild stack (pipelineNode pipeline) (withStage stage)"

subsection \<open>defineFrontend\<close>

record FrontendProps =
  bucketName :: "string option"

record FrontendOutput =
  bucket :: Bucket
  distribution :: Distribution
  url :: string

definition defineFrontend ::
  "Stack \<Rightarrow> FrontendProps option \<Rightarrow> SynthError + (FrontendOutput \<times> Stack)" where
  "defineFrontend stack props =
     andThen (newBucket stack ''FrontendBucket''
       \<lparr>BucketProps.bucketName =
          (case props of None \<Rightarrow> None | Some p \<Rightarrow> FrontendProps.bucketName p),
        blockPublicAccess = BLOCK_ALL,
        removalPolicy = DESTROY,
        autoDeleteObjects = True\<rparr>) (\<lambda>bucket stack.
     andThen (newDistribution stack ''Distribution''
       \<lparr>defaultBehavior =
          \<lparr>origin = withOriginAccessControl bucket,
           viewerProtocolPolicy = REDIRECT_TO_HTTPS\<rparr>,
        defaultRootObject = ''index.html'',
        errorResponses =
          [\<lparr>httpStatus = 404,
            responseHttpStatus = 200,
            responsePagePath = ''/index.html''\<rparr>]\<rparr>) (\<lambda>distribution stack.
     let url = ''https://'' @ distributionDomainName distribution in
     andThen (newCfnOutput stack ''CloudFrontURL'' url) (\<lambda>_ stack.
     andThen (newCfnOutput stack ''BucketName'' (Bucket.bucketName bucket)) (\<lambda>_ stack.
     Inr (\<lparr>bucket = bucket, distribution = distribution, url = url\<rparr>, stack)))))"

subsection \<open>definePipeline\<close>

record PipelineProps =
  githubOwner :: string
  githubRepo :: string
  githubBranch :: string
  githubTokenSecretName :: string
  stackName :: string
  frontend :: FrontendOutput

record PipelineOutput =
  pipeline :: Pipeline

text \<open>The object literal given to \<^verbatim>\<open>BuildSpec.fromObject\<close> for the backend project.\<close>

definition backendBuildSpec :: json where
  \<open>backendBuildSpec =
     JObject
       [(''version'', JString ''0.2''),
        (''phases'', JObject
          [(''install'', JObject
             [(''runtime-versions'', JObject [(''nodejs'', JNumber 20)]),
              (''commands'', JArray [JString ''npm ci'', JString ''npx ampx --version''])]),
           (''build'', JObject
             [(''commands'', JArray
                [JString ''echo "Deploying backend with --custom-pipeline..."'',
                 JString ''npx ampx pipeline-deploy --branch $BRANCH_NAME --custom-pipeline --stack-name $STACK_NAME --outputs-out-dir . --outputs-format json'',
                 JString ''cat amplify_outputs.json''])])]),
        (''artifacts'', JObject [(''files'', JArray [JString ''amplify_outputs.json''])]),
        (''cache'', JObject [(''paths'', JArray [JString ''node_modules/**/*''])])]\<close>

text \<open>The object literal given to \<^verbatim>\<open>BuildSpec.fromObject\<close> for the frontend project.\<close>

definition frontendBuildSpec :: json where
  \<open>frontendBuildSpec =
     JObject
       [(''version'', JString ''0.2''),
        (''phases'', JObject
          [(''install'', JObject
             [(''runtime-versions'', JObject [(''nodejs'', JNumber 20)]),
              (''commands'', JArray [JString ''npm ci''])]),
           (''pre_build'', JObject
             [(''commands'', JArray
                [JString ''cp $CODEBUILD_SRC_DIR_BackendOutput/amplify_outputs.json .'',
                 JString ''cat amplify_outputs.json''])]),
           (''build'', JObject
             [(''commands'', JArray [JString ''npm run build''])]),
           (''post_build'', JObject
             [(''commands'', JArray
                [JString ''aws s3 sync dist/ s3://$BUCKET_NAME/ --delete'',
                 JString ''aws cloudfront create-invalidation --distribution-id $DISTRIBUTION_ID --paths "/*"''])])])]\<close>

definition definePipeline ::
  "Stack \<Rightarrow> PipelineProps \<Rightarrow> SynthError + (PipelineOutput \<times> Stack)" where
  "definePipeline stack props =
     andThen (fromSecretNameV2 stack ''GitHubToken'' (githubTokenSecretName props))
       (\<lambda>githubToken stack.
     let sourceOutput = Artifact ''SourceOutput'';
         backendOutput = Artifact ''BackendOutput'' in
     andThen (newPipelineProject stack ''BackendBuild''
       \<lparr>projectName = stackName props @ ''-backend'',
        environment = \<lparr>buildImage = STANDARD_7_0, computeType = MEDIUM\<rparr>,
        environmentVariables =
          [(''BRANCH_NAME'', githubBranch props),
           (''STACK_NAME'', stackName props)],
        buildSpec = backendBuildSpec\<rparr>) (\<lambda>backendProject stack.
     andThen (addToRolePolicy stack backendProject
       \<lparr>PolicyStatement.actions =
          [''cloudformation:*'', ''iam:*'', ''cognito-idp:*'', ''appsync:*'', ''dynamodb:*'',
           ''lambda:*'', ''s3:*'', ''ssm:*'', ''secretsmanager:GetSecretValue'', ''logs:*'',
           ''sts:AssumeRole''],
        resources = [''*'']\<rparr>) (\<lambda>_ stack.
     andThen (newPipelineProject stack ''FrontendBuild''
       \<lparr>projectName = stackName props @ ''-frontend'',
        environment = \<lparr>buildImage = STANDARD_7_0, computeType = MEDIUM\<rparr>,
        environmentVariables =
          [(''BUCKET_NAME'', Bucket.bucketName (bucket (frontend props))),
           (''DISTRIBUTION_ID'', distributionId (distribution (frontend props)))],
        buildSpec = frontendBuildSpec\<rparr>) (\<lambda>frontendProject stack.
     andThen (grantReadWrite stack (bucket (frontend props)) frontendProject) (\<lambda>_ stack.
     andThen (addToRolePolicy stack frontendProject
       \<lparr>PolicyStatement.actions = [''cloudfront:CreateInvalidation''],
        resources =
          [''arn:aws:cloudfront::'' @ account stack @ '':distribution/''
             @ distributionId (distribution (frontend props))]\<rparr>) (\<lambda>_ stack.
     andThen (newPipeline stack ''Pipeline''
       \<lparr>CodePipelineProps.pipelineName = stackName props @ ''-pipeline''\<rparr>) (\<lambda>pipeline stack.
     andThen (addStage stack pipeline
       \<lparr>stageName = ''Source'',
        StageProps.actions =
          [GitHubSourceAction
             \<lparr>GitHubSourceActionProps.actionName = ''GitHub'',
              owner = githubOwner props,
              repo = githubRepo props,
              branch = githubBranch props,
              oauthToken = secretValue githubToken,
              output' = sourceOutput,
              trigger = WEBHOOK\<rparr>]\<rparr>) (\<lambda>_ stack.
     andThen (addStage stack pipeline
       \<lparr>stageName = ''DeployBackend'',
        StageProps.actions =
          [CodeBuildAction
             \<lparr>CodeBuildActionProps.actionName = ''Backend'',
              project = backendProject,
              input = sourceOutput,
              extraInputs = None,
              outputs = Some [backendOutput]\<rparr>]\<rparr>) (\<lambda>_ stack.
     andThen (addStage stack pipeline
       \<lparr>stageName = ''DeployFrontend'',
        StageProps.actions =
          [CodeBuildAction
             \<lparr>CodeBuildActionProps.actionName = ''Frontend'',
              project = frontendProject,
              input = sourceOutput,
              extraInputs = Some [backendOutput],
              outputs = None\<rparr>]\<rparr>) (\<lambda>_ stack.
     andThen (newCfnOutput stack ''PipelineName'' (Pipeline.pipelineName pipeline)) (\<lambda>_ stack.
     Inr (\<lparr>pipeline = pipeline\<rparr>, stack))))))))))))"

subsection \<open>Example inputs\<close>

text \<open>
  A fresh stack whose provider names every attribute after its construct, with a library that
  accepts every construct, and the same stack holding one unrelated construct.
\<close>

definition exampleStack :: Stack where
  "exampleStack =
     \<lparr>account = ''123456789012'',
      children = [],
      attribute = (\<lambda>cid name. cid @ ''.'' @ name),
      accepts = (\<lambda>cid c. True)\<rparr>"

definition usedStack :: Stack where
  "usedStack = exampleStack\<lparr>children := [(''Existing'', CfnOutputC ''kept'')]\<rparr>"

definition exampleFrontend :: FrontendOutput where
  "exampleFrontend =
     \<lparr>bucket = \<lparr>bucketNode = ''FrontendBucket'', Bucket.bucketName = ''FrontendBucket.bucketName''\<rparr>,
      distribution =
        \<lparr>distributionNode = ''Distribution'',
         distributionDomainName = ''Distribution.distributionDomainName'',
         distributionId = ''Distribution.distributionId''\<rparr>,
      url = ''https://Distribution.distributionDomainName''\<rparr>"

text \<open>The configuration amplify/backend.ts passes to \<open>definePipeline\<close>.\<close>

definition exampleProps :: PipelineProps where
  "exampleProps =
     \<lparr>githubOwner = ''adrianjoshua-strutt'',
      githubRepo = ''amplify-vite-react-custom-pipeline'',
      githubBranch = ''main'',
      githubTokenSecretName = ''github-token'',
      stackName = ''amplify-vite-react-custom-pipeline'',
      frontend = exampleFrontend\<rparr>"

section \<open>Runs of the two functions\<close>

subsection \<open>Steps of a run\<close>

lemma andThenE:
  assumes "andThen m k = Inr r"
  obtains x s where "m = Inr (x, s)" and "k x s = Inr r"
  using assms by (auto simp: andThen_def split: sum.splits)

lemma map_add_app: "(m ++ n) k = (case n k of None \<Rightarrow> m k | Some v \<Rightarrow> Some v)"
  by (simp add: map_add_def)

lemma map_of_absent: "i \<notin> fst ` set xs \<Longrightarrow> map_of xs i = None"
  by (simp add: map_of_eq_None_iff)

lemma replaceChild_append:
  "replaceChild i c (xs @ ys) = replaceChild i c xs @ replaceChild i c ys"
  by (induction xs) auto

lemma replaceChild_absent: "i \<notin> fst ` set xs \<Longrightarrow> replaceChild i c xs = xs"
  by (induction xs) auto

lemma addChild_Inr:
  "addChild s i c = Inr t \<longleftrightarrow>
     i \<notin> fst ` set (children s) \<and> accepts s i c \<and> t = s\<lparr>children := children s @ [(i, c)]\<rparr>"
  by (auto simp: addChild_def)

lemma addChild_Inl: "addChild s i c = Inl e \<Longrightarrow> \<not> (i \<notin> fst ` set (children s) \<and> accepts s i c)"
  by (auto simp: addChild_def split: if_splits)

lemma newBucket_Inr:
  "newBucket s i p = Inr (b, t) \<longleftrightarrow>
     i \<notin> fst ` set (children s) \<and> accepts s i (BucketC p) \<and>
     b = \<lparr>bucketNode = i, Bucket.bucketName = attribute s i ''bucketName''\<rparr> \<and>
     t = s\<lparr>children := children s @ [(i, BucketC p)]\<rparr>"
  by (auto simp: newBucket_def addChild_Inr split: sum.splits dest: addChild_Inl)

lemma newDistribution_Inr:
  "newDistribution s i p = Inr (d, t) \<longleftrightarrow>
     i \<notin> fst ` set (children s) \<and> accepts s i (DistributionC p) \<and>
     d = \<lparr>distributionNode = i,
          distributionDomainName = attribute s i ''distributionDomainName'',
          distributionId = attribute s i ''distributionId''\<rparr> \<and>
     t = s\<lparr>children := children s @ [(i, DistributionC p)]\<rparr>"
  by (auto simp: newDistribution_def addChild_Inr split: sum.splits dest: addChild_Inl)

lemma newCfnOutput_Inr:
  "newCfnOutput s i v = Inr (u, t) \<longleftrightarrow>
     i \<notin> fst ` set (children s) \<and> accepts s i (CfnOutputC v) \<and>
     t = s\<lparr>children := children s @ [(i, CfnOutputC v)]\<rparr>"
  by (auto simp: newCfnOutput_def addChild_Inr split: sum.splits dest: addChild_Inl)

lemma fromSecretNameV2_Inr:
  "fromSecretNameV2 s i n = Inr (h, t) \<longleftrightarrow>
     i \<notin> fst ` set (children s) \<and> accepts s i (SecretC n) \<and>
     h = \<lparr>secretNode = i, secretValue = secretsManager n\<rparr> \<and>
     t = s\<lparr>children := children s @ [(i, SecretC n)]\<rparr>"
  by (auto simp: fromSecretNameV2_def addChild_Inr split: sum.splits dest: addChild_Inl)

lemma newPipelineProject_Inr:
  "newPipelineProject s i p = Inr (h, t) \<longleftrightarrow>
     i \<notin> fst ` set (children s) \<and> accepts s i (PipelineProjectC p []) \<and>
     h = \<lparr>projectNode = i\<rparr> \<and>
     t = s\<lparr>children := children s @ [(i, PipelineProjectC p [])]\<rparr>"
  by (auto simp: newPipelineProject_def addChild_Inr split: sum.splits dest: addChild_Inl)

lemma newPipeline_Inr:
  "newPipeline s i p = Inr (h, t) \<longleftrightarrow>
     i \<notin> fst ` set (children s) \<and> accepts s i (PipelineC p []) \<and>
     h = \<lparr>pipelineNode = i, Pipeline.pipelineName = attribute s i ''pipelineName''\<rparr> \<and>
     t = s\<lparr>children := children s @ [(i, PipelineC p [])]\<rparr>"
  by (auto simp: newPipeline_def addChild_Inr split: sum.splits dest: addChild_Inl)

lemma modifyChild_Inr:
  "modifyChild s i f = Inr (u, t) \<longleftrightarrow>
     (\<exists>c c'. map_of (children s) i = Some c \<and> f c = Some c' \<and> accepts s i c' \<and>
        t = s\<lparr>children := replaceChild i c' (children s)\<rparr>)"
  by (auto simp: modifyChild_def split: option.splits)

lemmas run_simps =
  fromSecretNameV2_Inr newBucket_Inr newDistribution_Inr newPipelineProject_Inr newPipeline_Inr
  newCfnOutput_Inr modifyChild_Inr map_add_app map_of_absent replaceChild_absent
  replaceChild_append

lemma defineFrontend_Inr:
  assumes "defineFrontend stack props = Inr (out, stack')"
  shows "stack' = stack\<lparr>children := children stack @
           [(''FrontendBucket'', BucketC
               \<lparr>BucketProps.bucketName =
                  (case props of None \<Rightarrow> None | Some p \<Rightarrow> FrontendProps.bucketName p),
                blockPublicAccess = BLOCK_ALL,
                removalPolicy = DESTROY,
                autoDeleteObjects = True\<rparr>),
            (''Distribution'', DistributionC
               \<lparr>defaultBehavior =
                  \<lparr>origin = withOriginAccessControl (bucket out),
                   viewerProtocolPolicy = REDIRECT_TO_HTTPS\<rparr>,
                defaultRootObject = ''index.html'',
                errorResponses =
                  [\<lparr>httpStatus = 404,
                    responseHttpStatus = 200,
                    responsePagePath = ''/index.html''\<rparr>]\<rparr>),
            (''CloudFrontURL'', CfnOutputC (url out)),
            (''BucketName'', CfnOutputC (Bucket.bucketName (bucket out)))]\<rparr>
         \<and> out =
           \<lparr>bucket =
              \<lparr>bucketNode = ''FrontendBucket'',
               Bucket.bucketName = attribute stack ''FrontendBucket'' ''bucketName''\<rparr>,
            distribution =
              \<lparr>distributionNode = ''Distribution'',
               distributionDomainName = attribute stack ''Distribution'' ''distributionDomainName'',
               distributionId = attribute stack ''Distribution'' ''distributionId''\<rparr>,
            url = ''https://'' @ attribute stack ''Distribution'' ''distributionDomainName''\<rparr>
         \<and> ''FrontendBucket'' \<notin> fst ` set (children stack)
         \<and> ''Distribution'' \<notin> fst ` set (children stack)
         \<and> ''CloudFrontURL'' \<notin> fst ` set (children stack)
         \<and> ''BucketName'' \<notin> fst ` set (children stack)"
  using assms unfolding defineFrontend_def Let_def
  apply (elim andThenE)
  apply (clarsimp simp: run_simps)
  done

lemma definePipeline_Inr:
  assumes "definePipeline stack props = Inr (out, stack')"
  shows "stack' = stack\<lparr>children := children stack @
           [(''GitHubToken'', SecretC (githubTokenSecretName props)),
            (''BackendBuild'', PipelineProjectC
               \<lparr>projectName = stackName props @ ''-backend'',
                environment = \<lparr>buildImage = STANDARD_7_0, computeType = MEDIUM\<rparr>,
                environmentVariables =
                  [(''BRANCH_NAME'', githubBranch props), (''STACK_NAME'', stackName props)],
                buildSpec = backendBuildSpec\<rparr>
               [Statement
                  \<lparr>PolicyStatement.actions =
                     [''cloudformation:*'', ''iam:*'', ''cognito-idp:*'', ''appsync:*'',
                      ''dynamodb:*'', ''lambda:*'', ''s3:*'', ''ssm:*'',
                      ''secretsmanager:GetSecretValue'', ''logs:*'', ''sts:AssumeRole''],
                   resources = [''*'']\<rparr>]),
            (''FrontendBuild'', PipelineProjectC
               \<lparr>projectName = stackName props @ ''-frontend'',
                environment = \<lparr>buildImage = STANDARD_7_0, computeType = MEDIUM\<rparr>,
                environmentVariables =
                  [(''BUCKET_NAME'', Bucket.bucketName (bucket (frontend props))),
                   (''DISTRIBUTION_ID'', distributionId (distribution (frontend props)))],
                buildSpec = frontendBuildSpec\<rparr>
               [ReadWrite (bucket (frontend props)),
                Statement
                  \<lparr>PolicyStatement.actions = [''cloudfront:CreateInvalidation''],
                   resources =
                     [''arn:aws:cloudfront::'' @ account stack @ '':distribution/''
                        @ distributionId (distribution (frontend props))]\<rparr>]),
            (''Pipeline'', PipelineC
               \<lparr>CodePipelineProps.pipelineName = stackName props @ ''-pipeline''\<rparr>
               [\<lparr>stageName = ''Source'',
                 StageProps.actions =
                   [GitHubSourceAction
                      \<lparr>GitHubSourceActionProps.actionName = ''GitHub'',
                       owner = githubOwner props,
                       repo = githubRepo props,
                       branch = githubBranch props,
                       oauthToken = secretsManager (githubTokenSecretName props),
                       output' = Artifact ''SourceOutput'',
                       trigger = WEBHOOK\<rparr>]\<rparr>,
                \<lparr>stageName = ''DeployBackend'',
                 StageProps.actions =
                   [CodeBuildAction
                      \<lparr>CodeBuildActionProps.actionName = ''Backend'',
                       project = \<lparr>projectNode = ''BackendBuild''\<rparr>,
                       input = Artifact ''SourceOutput'',
                       extraInputs = None,
                       outputs = Some [Artifact ''BackendOutput'']\<rparr>]\<rparr>,
                \<lparr>stageName = ''DeployFrontend'',
                 StageProps.actions =
                   [CodeBuildAction
                      \<lparr>CodeBuildActionProps.actionName = ''Frontend'',
                       project = \<lparr>projectNode = ''FrontendBuild''\<rparr>,
                       input = Artifact ''SourceOutput'',
                       extraInputs = Some [Artifact ''BackendOutput''],
                       outputs = None\<rparr>]\<rparr>]),
            (''PipelineName'', CfnOutputC (attribute stack ''Pipeline'' ''pipelineName''))]\<rparr>
         \<and> out =
           \<lparr>pipeline =
              \<lparr>pipelineNode = ''Pipeline'',
               Pipeline.pipelineName = attribute stack ''Pipeline'' ''pipelineName''\<rparr>\<rparr>
         \<and> ''GitHubToken'' \<notin> fst ` set (children stack)
         \<and> ''BackendBuild'' \<notin> fst ` set (children stack)
         \<and> ''FrontendBuild'' \<notin> fst ` set (children stack)
         \<and> ''Pipeline'' \<notin> fst ` set (children stack)
         \<and> ''PipelineName'' \<notin> fst ` set (children stack)"
  using assms
  unfolding definePipeline_def Let_def addToRolePolicy_def grantReadWrite_def addStage_def
  apply (elim andThenE)
  apply (clarsimp simp: run_simps)
  done

subsection \<open>Both functions return on a fresh stack with a permissive library\<close>

lemma defineFrontend_returns:
  assumes "''FrontendBucket'' \<notin> fst ` set (children stack)"
    and "''Distribution'' \<notin> fst ` set (children stack)"
    and "''CloudFrontURL'' \<notin> fst ` set (children stack)"
    and "''BucketName'' \<notin> fst ` set (children stack)"
    and "\<And>cid c. accepts stack cid c"
  shows "\<exists>out stack'. defineFrontend stack props = Inr (out, stack')"
  using assms
  by (simp add: defineFrontend_def andThen_def newBucket_def newDistribution_def
      newCfnOutput_def addChild_def Let_def)

lemma definePipeline_returns:
  assumes "''GitHubToken'' \<notin> fst ` set (children stack)"
    and "''BackendBuild'' \<notin> fst ` set (children stack)"
    and "''FrontendBuild'' \<notin> fst ` set (children stack)"
    and "''Pipeline'' \<notin> fst ` set (children stack)"
    and "''PipelineName'' \<notin> fst ` set (children stack)"
    and "\<And>cid c. accepts stack cid c"
  shows "\<exists>out stack'. definePipeline stack props = Inr (out, stack')"
  using assms
  by (simp add: definePipeline_def andThen_def fromSecretNameV2_def newPipelineProject_def
      newPipeline_def newCfnOutput_def addChild_def addToRolePolicy_def grantReadWrite_def
      addStage_def modifyChild_def Let_def map_add_app map_of_absent replaceChild_absent
      replaceChild_append)

lemma exampleStack_fresh: "children exampleStack = []" "accepts exampleStack cid c"
  by (simp_all add: exampleStack_def)

lemma usedStack_fresh:
  "children usedStack = [(''Existing'', CfnOutputC ''kept'')]" "accepts usedStack cid c"
  by (simp_all add: usedStack_def exampleStack_def)

lemma tryFindChild_added:
  "tryFindChild (stack\<lparr>children := children stack @ new\<rparr>) cid =
     (case map_of (children stack) cid of None \<Rightarrow> map_of new cid | Some c \<Rightarrow> Some c)"
  by (simp add: tryFindChild_def map_add_app)

text \<open>The example descriptor is what \<open>defineFrontend\<close> returns on the example stack.\<close>

lemma exampleFrontend_run:
  "\<exists>stack'. defineFrontend exampleStack None = Inr (exampleFrontend, stack')"
proof -
  obtain out stack' where run: "defineFrontend exampleStack None = Inr (out, stack')"
    using defineFrontend_returns [of exampleStack None] by (auto simp: exampleStack_fresh)
  have "out = exampleFrontend"
    using defineFrontend_Inr [OF run] by (simp add: exampleStack_def exampleFrontend_def)
  with run show ?thesis by blast
qed

text \<open>
  A run leaves its construct ids taken: calling either function again on the stack it has
  produced raises at the first constructor.
\<close>

lemma defineFrontend_again:
  assumes "defineFrontend stack props = Inr (out, stack')"
  shows "defineFrontend stack' props' = Inl (DuplicateConstruct ''FrontendBucket'')"
  using defineFrontend_Inr [OF assms]
  by (simp add: defineFrontend_def andThen_def newBucket_def addChild_def)

lemma definePipeline_again:
  assumes "definePipeline stack props = Inr (out, stack')"
  shows "definePipeline stack' props' = Inl (DuplicateConstruct ''GitHubToken'')"
  using definePipeline_Inr [OF assms]
  by (simp add: definePipeline_def andThen_def fromSecretNameV2_def addChild_def)

section \<open>Properties of the assembled configuration\<close>

text \<open>
  Claim C1.  Whenever \<open>definePipeline\<close> returns, the pipeline it has registered has exactly
  three stages, named \<open>Source\<close>, \<open>DeployBackend\<close> and \<open>DeployFrontend\<close> in this order, and
  each of the three stages holds exactly one action.
\<close>

theorem pipeline_three_stages:
  assumes "definePipeline stack props = Inr (out, stack')"
  shows "\<exists>pp stages.
           tryFindChild stack' (pipelineNode (pipeline out)) = Some (PipelineC pp stages) \<and>
           map stageName stages = [''Source'', ''DeployBackend'', ''DeployFrontend''] \<and>
           map (\<lambda>stage. length (StageProps.actions stage)) stages = [1, 1, 1]"
  using definePipeline_Inr [OF assms]
  by (clarsimp simp: tryFindChild_added map_of_absent)

text \<open>The statement above at a concrete run.\<close>

theorem pipeline_three_stages_witness:
  "\<exists>out stack'. definePipeline exampleStack exampleProps = Inr (out, stack') \<and>
     (\<exists>pp stages.
        tryFindChild stack' (pipelineNode (pipeline out)) = Some (PipelineC pp stages) \<and>
        map stageName stages = [''Source'', ''DeployBackend'', ''DeployFrontend''] \<and>
        map (\<lambda>stage. length (StageProps.actions stage)) stages = [1, 1, 1])"
proof -
  obtain out stack' where run: "definePipeline exampleStack exampleProps = Inr (out, stack')"
    using definePipeline_returns [of exampleStack exampleProps]
    by (auto simp: exampleStack_fresh)
  show ?thesis
    by (rule exI [of _ out], rule exI [of _ stack'], rule conjI, rule run,
        rule pipeline_three_stages [OF run])
qed

text \<open>
  Claim C2.  Whenever \<open>definePipeline\<close> returns, the single build action of the
  \<open>DeployFrontend\<close> stage has as its primary input the artifact that the source action
  produces, has as its extra inputs exactly the outputs of the backend action (the one
  artifact \<open>BackendOutput\<close>, which is not the source artifact), and declares no outputs.
\<close>

theorem frontend_action_inputs:
  assumes "definePipeline stack props = Inr (out, stack')"
  shows "\<exists>pp source backend deploy g b f.
           tryFindChild stack' (pipelineNode (pipeline out)) =
             Some (PipelineC pp [source, backend, deploy]) \<and>
           StageProps.actions source = [GitHubSourceAction g] \<and>
           StageProps.actions backend = [CodeBuildAction b] \<and>
           stageName deploy = ''DeployFrontend'' \<and>
           StageProps.actions deploy = [CodeBuildAction f] \<and>
           output' g = Artifact ''SourceOutput'' \<and>
           outputs b = Some [Artifact ''BackendOutput''] \<and>
           input f = output' g \<and>
           extraInputs f = outputs b \<and>
           outputs f = None"
  using definePipeline_Inr [OF assms]
  by (clarsimp simp: tryFindChild_added map_of_absent)

text \<open>The statement above at a concrete run.\<close>

theorem frontend_action_inputs_witness:
  "\<exists>out stack'. definePipeline exampleStack exampleProps = Inr (out, stack') \<and>
     (\<exists>pp source backend deploy g b f.
           tryFindChild stack' (pipelineNode (pipeline out)) =
             Some (PipelineC pp [source, backend, deploy]) \<and>
           StageProps.actions source = [GitHubSourceAction g] \<and>
           StageProps.actions backend = [CodeBuildAction b] \<and>
           stageName deploy = ''DeployFrontend'' \<and>
           StageProps.actions deploy = [CodeBuildAction f] \<and>
           output' g = Artifact ''SourceOutput'' \<and>
           outputs b = Some [Artifact ''BackendOutput''] \<and>
           input f = output' g \<and>
           extraInputs f = outputs b \<and>
           outputs f = None)"
proof -
  obtain out stack' where run: "definePipeline exampleStack exampleProps = Inr (out, stack')"
    using definePipeline_returns [of exampleStack exampleProps]
    by (auto simp: exampleStack_fresh)
  show ?thesis
    by (rule exI [of _ out], rule exI [of _ stack'], rule conjI, rule run,
        rule frontend_action_inputs [OF run])
qed

text \<open>
  Claim C3.  Whenever \<open>defineFrontend\<close> returns, whatever the props (absent, without a
  bucket name, or with one), the bucket it has registered carries the requested name, blocks
  all public access, has removal policy \<open>DESTROY\<close> and deletes its objects automatically.
\<close>

theorem bucket_private_and_disposable:
  assumes "defineFrontend stack props = Inr (out, stack')"
  shows "\<exists>bp. tryFindChild stack' (bucketNode (bucket out)) = Some (BucketC bp) \<and>
           BucketProps.bucketName bp =
             (case props of None \<Rightarrow> None | Some p \<Rightarrow> FrontendProps.bucketName p) \<and>
           blockPublicAccess bp = BLOCK_ALL \<and>
           removalPolicy bp = DESTROY \<and>
           autoDeleteObjects bp"
  using defineFrontend_Inr [OF assms]
  by (clarsimp simp: tryFindChild_added map_of_absent)

text \<open>The statement above at a concrete run.\<close>

theorem bucket_private_and_disposable_witness:
  "\<exists>out stack'.
     defineFrontend usedStack (Some \<lparr>FrontendProps.bucketName = Some ''site-assets''\<rparr>) =
       Inr (out, stack') \<and>
     (\<exists>bp. tryFindChild stack' (bucketNode (bucket out)) = Some (BucketC bp) \<and>
           BucketProps.bucketName bp =
             (case Some \<lparr>FrontendProps.bucketName = Some ''site-assets''\<rparr> of
                None \<Rightarrow> None | Some p \<Rightarrow> FrontendProps.bucketName p) \<and>
           blockPublicAccess bp = BLOCK_ALL \<and>
           removalPolicy bp = DESTROY \<and>
           autoDeleteObjects bp)"
proof -
  obtain out stack' where run:
    "defineFrontend usedStack (Some \<lparr>FrontendProps.bucketName = Some ''site-assets''\<rparr>) =
       Inr (out, stack')"
    using defineFrontend_returns
      [of usedStack "Some \<lparr>FrontendProps.bucketName = Some ''site-assets''\<rparr>"]
    by (auto simp: usedStack_fresh)
  show ?thesis
    by (rule exI [of _ out], rule exI [of _ stack'], rule conjI, rule run,
        rule bucket_private_and_disposable [OF run])
qed

text \<open>
  Claim C4.  Whenever \<open>defineFrontend\<close> returns, the distribution it has registered
  declares exactly one error response, which turns status 404 into status 200 serving
  \<open>/index.html\<close>.
\<close>

theorem distribution_error_responses:
  assumes "defineFrontend stack props = Inr (out, stack')"
  shows "\<exists>dp. tryFindChild stack' (distributionNode (distribution out)) = Some (DistributionC dp) \<and>
           errorResponses dp =
             [\<lparr>httpStatus = 404, responseHttpStatus = 200, responsePagePath = ''/index.html''\<rparr>]"
  using defineFrontend_Inr [OF assms]
  by (clarsimp simp: tryFindChild_added map_of_absent)

text \<open>The statement above at a concrete run.\<close>

theorem distribution_error_responses_witness:
  "\<exists>out stack'. defineFrontend exampleStack None = Inr (out, stack') \<and>
     (\<exists>dp. tryFindChild stack' (distributionNode (distribution out)) = Some (DistributionC dp) \<and>
           errorResponses dp =
             [\<lparr>httpStatus = 404, responseHttpStatus = 200, responsePagePath = ''/index.html''\<rparr>])"
proof -
  obtain out stack' where run: "defineFrontend exampleStack None = Inr (out, stack')"
    using defineFrontend_returns [of exampleStack None]
    by (auto simp: exampleStack_fresh)
  show ?thesis
    by (rule exI [of _ out], rule exI [of _ stack'], rule conjI, rule run,
        rule distribution_error_responses [OF run])
qed

text \<open>
  Claim C5.  In the build specification of the backend project the file list of the
  \<open>artifacts\<close> section is the single entry \<open>amplify_outputs.json\<close>; the build
  specification of the frontend project has no \<open>artifacts\<close> key.
\<close>

theorem build_artifacts:
  assumes "definePipeline stack props = Inr (out, stack')"
  shows "\<exists>bp bg fp fg.
           tryFindChild stack' ''BackendBuild'' = Some (PipelineProjectC bp bg) \<and>
           lookupPath (buildSpec bp) [''artifacts'', ''files''] =
             Some (JArray [JString ''amplify_outputs.json'']) \<and>
           tryFindChild stack' ''FrontendBuild'' = Some (PipelineProjectC fp fg) \<and>
           lookupKey (buildSpec fp) ''artifacts'' = None"
  using definePipeline_Inr [OF assms]
  by (clarsimp simp: tryFindChild_added map_of_absent backendBuildSpec_def frontendBuildSpec_def)

text \<open>The statement above at a concrete run.\<close>

theorem build_artifacts_witness:
  "\<exists>out stack'. definePipeline exampleStack exampleProps = Inr (out, stack') \<and>
     (\<exists>bp bg fp fg.
           tryFindChild stack' ''BackendBuild'' = Some (PipelineProjectC bp bg) \<and>
           lookupPath (buildSpec bp) [''artifacts'', ''files''] =
             Some (JArray [JString ''amplify_outputs.json'']) \<and>
           tryFindChild stack' ''FrontendBuild'' = Some (PipelineProjectC fp fg) \<and>
           lookupKey (buildSpec fp) ''artifacts'' = None)"
proof -
  obtain out stack' where run: "definePipeline exampleStack exampleProps = Inr (out, stack')"
    using definePipeline_returns [of exampleStack exampleProps]
    by (auto simp: exampleStack_fresh)
  show ?thesis
    by (rule exI [of _ out], rule exI [of _ stack'], rule conjI, rule run,
        rule build_artifacts [OF run])
qed

text \<open>
  Claim C6.  Whenever \<open>definePipeline\<close> returns, the role of the frontend project has been
  given read/write on the bucket of the frontend descriptor and one added statement, which
  allows \<open>cloudfront:CreateInvalidation\<close> on a single resource: the distribution ARN built
  from the account of the stack and the distribution id of the descriptor.  That resource is
  not the wildcard.
\<close>

theorem frontend_role_grants:
  assumes "definePipeline stack props = Inr (out, stack')"
  shows "\<exists>fp arn.
           tryFindChild stack' ''FrontendBuild'' =
             Some (PipelineProjectC fp
               [ReadWrite (bucket (frontend props)),
                Statement
                  \<lparr>PolicyStatement.actions = [''cloudfront:CreateInvalidation''],
                   resources = [arn]\<rparr>]) \<and>
           arn = ''arn:aws:cloudfront::'' @ account stack' @ '':distribution/''
                   @ distributionId (distribution (frontend props)) \<and>
           arn \<noteq> ''*''"
  using definePipeline_Inr [OF assms]
  by (clarsimp simp: tryFindChild_added map_of_absent)

text \<open>The statement above at a concrete run.\<close>

theorem frontend_role_grants_witness:
  "\<exists>out stack'. definePipeline exampleStack exampleProps = Inr (out, stack') \<and>
     (\<exists>fp arn.
           tryFindChild stack' ''FrontendBuild'' =
             Some (PipelineProjectC fp
               [ReadWrite (bucket (frontend exampleProps)),
                Statement
                  \<lparr>PolicyStatement.actions = [''cloudfront:CreateInvalidation''],
                   resources = [arn]\<rparr>]) \<and>
           arn = ''arn:aws:cloudfront::'' @ account stack' @ '':distribution/''
                   @ distributionId (distribution (frontend exampleProps)) \<and>
           arn \<noteq> ''*'')"
proof -
  obtain out stack' where run: "definePipeline exampleStack exampleProps = Inr (out, stack')"
    using definePipeline_returns [of exampleStack exampleProps]
    by (auto simp: exampleStack_fresh)
  show ?thesis
    by (rule exI [of _ out], rule exI [of _ stack'], rule conjI, rule run,
        rule frontend_role_grants [OF run])
qed

text \<open>
  Claim C7.  With owner \<open>acme\<close>, repository \<open>site\<close>, branch \<open>main\<close> and stack name
  \<open>acme-site\<close>, the backend project is named \<open>acme-site-backend\<close>, the frontend project
  \<open>acme-site-frontend\<close> and the pipeline \<open>acme-site-pipeline\<close>, for every secret name and
  frontend descriptor.
\<close>

theorem acme_site_names:
  assumes "definePipeline stack
             \<lparr>githubOwner = ''acme'', githubRepo = ''site'', githubBranch = ''main'',
              githubTokenSecretName = tokenName, stackName = ''acme-site'',
              frontend = fe\<rparr> = Inr (out, stack')"
  shows "\<exists>bp bg fp fg pp stages.
           tryFindChild stack' ''BackendBuild'' = Some (PipelineProjectC bp bg) \<and>
           projectName bp = ''acme-site-backend'' \<and>
           tryFindChild stack' ''FrontendBuild'' = Some (PipelineProjectC fp fg) \<and>
           projectName fp = ''acme-site-frontend'' \<and>
           tryFindChild stack' (pipelineNode (pipeline out)) = Some (PipelineC pp stages) \<and>
           CodePipelineProps.pipelineName pp = ''acme-site-pipeline''"
  using definePipeline_Inr [OF assms]
  by (clarsimp simp: tryFindChild_added map_of_absent)

text \<open>The statement above at a concrete run.\<close>

theorem acme_site_names_witness:
  "\<exists>out stack'.
     definePipeline exampleStack
       \<lparr>githubOwner = ''acme'', githubRepo = ''site'', githubBranch = ''main'',
        githubTokenSecretName = ''github-token'', stackName = ''acme-site'',
        frontend = exampleFrontend\<rparr> = Inr (out, stack') \<and>
     (\<exists>bp bg fp fg pp stages.
           tryFindChild stack' ''BackendBuild'' = Some (PipelineProjectC bp bg) \<and>
           projectName bp = ''acme-site-backend'' \<and>
           tryFindChild stack' ''FrontendBuild'' = Some (PipelineProjectC fp fg) \<and>
           projectName fp = ''acme-site-frontend'' \<and>
           tryFindChild stack' (pipelineNode (pipeline out)) = Some (PipelineC pp stages) \<and>
           CodePipelineProps.pipelineName pp = ''acme-site-pipeline'')"
proof -
  obtain out stack' where run:
    "definePipeline exampleStack
       \<lparr>githubOwner = ''acme'', githubRepo = ''site'', githubBranch = ''main'',
        githubTokenSecretName = ''github-token'', stackName = ''acme-site'',
        frontend = exampleFrontend\<rparr> = Inr (out, stack')"
    using definePipeline_returns
      [of exampleStack
        "\<lparr>githubOwner = ''acme'', githubRepo = ''site'', githubBranch = ''main'',
          githubTokenSecretName = ''github-token'', stackName = ''acme-site'',
          frontend = exampleFrontend\<rparr>"]
    by (auto simp: exampleStack_fresh)
  show ?thesis
    by (rule exI [of _ out], rule exI [of _ stack'], rule conjI, rule run,
        rule acme_site_names [OF run])
qed

text \<open>
  Claim C9.  Whenever \<open>defineFrontend\<close> returns, the URL it returns is \<open>https://\<close> followed
  by the domain name the provider assigns to the distribution it has registered, and the
  output \<open>CloudFrontURL\<close> publishes that same URL.
\<close>

theorem frontend_url:
  assumes "defineFrontend stack props = Inr (out, stack')"
  shows "url out = ''https://'' @ distributionDomainName (distribution out) \<and>
         distributionDomainName (distribution out) =
           attribute stack' (distributionNode (distribution out)) ''distributionDomainName'' \<and>
         (\<exists>dp. tryFindChild stack' (distributionNode (distribution out)) = Some (DistributionC dp)) \<and>
         tryFindChild stack' ''CloudFrontURL'' = Some (CfnOutputC (url out))"
  using defineFrontend_Inr [OF assms]
  by (clarsimp simp: tryFindChild_added map_of_absent)

text \<open>The statement above at a concrete run.\<close>

theorem frontend_url_witness:
  "\<exists>out stack'. defineFrontend exampleStack None = Inr (out, stack') \<and>
     url out = ''https://Distribution.distributionDomainName'' \<and>
     url out = ''https://'' @ distributionDomainName (distribution out) \<and>
     distributionDomainName (distribution out) =
       attribute stack' (distributionNode (distribution out)) ''distributionDomainName'' \<and>
     (\<exists>dp. tryFindChild stack' (distributionNode (distribution out)) = Some (DistributionC dp)) \<and>
     tryFindChild stack' ''CloudFrontURL'' = Some (CfnOutputC (url out))"
proof -
  obtain out stack' where run: "defineFrontend exampleStack None = Inr (out, stack')"
    using defineFrontend_returns [of exampleStack None]
    by (auto simp: exampleStack_fresh)
  have "url out = ''https://Distribution.distributionDomainName''"
    using defineFrontend_Inr [OF run] by (simp add: exampleStack_def)
  with frontend_url [OF run] run show ?thesis
    by (intro exI [of _ out] exI [of _ stack']) simp
qed

text \<open>
  Claim C10.  The build specification of the backend project declares a cache over the
  single path \<open>node_modules/**/*\<close>, the one of the frontend project has no \<open>cache\<close> key,
  and the install phase of both runs \<open>npm ci\<close>.
\<close>

theorem build_cache_asymmetry:
  assumes "definePipeline stack props = Inr (out, stack')"
  shows "\<exists>bp bg fp fg.
           tryFindChild stack' ''BackendBuild'' = Some (PipelineProjectC bp bg) \<and>
           lookupKey (buildSpec bp) ''cache'' =
             Some (JObject [(''paths'', JArray [JString ''node_modules/**/*''])]) \<and>
           lookupPath (buildSpec bp) [''phases'', ''install'', ''commands''] =
             Some (JArray [JString ''npm ci'', JString ''npx ampx --version'']) \<and>
           tryFindChild stack' ''FrontendBuild'' = Some (PipelineProjectC fp fg) \<and>
           lookupKey (buildSpec fp) ''cache'' = None \<and>
           lookupPath (buildSpec fp) [''phases'', ''install'', ''commands''] =
             Some (JArray [JString ''npm ci''])"
  using definePipeline_Inr [OF assms]
  by (clarsimp simp: tryFindChild_added map_of_absent backendBuildSpec_def frontendBuildSpec_def)

text \<open>The statement above at a concrete run.\<close>

theorem build_cache_asymmetry_witness:
  "\<exists>out stack'. definePipeline usedStack exampleProps = Inr (out, stack') \<and>
     (\<exists>bp bg fp fg.
           tryFindChild stack' ''BackendBuild'' = Some (PipelineProjectC bp bg) \<and>
           lookupKey (buildSpec bp) ''cache'' =
             Some (JObject [(''paths'', JArray [JString ''node_modules/**/*''])]) \<and>
           lookupPath (buildSpec bp) [''phases'', ''install'', ''commands''] =
             Some (JArray [JString ''npm ci'', JString ''npx ampx --version'']) \<and>
           tryFindChild stack' ''FrontendBuild'' = Some (PipelineProjectC fp fg) \<and>
           lookupKey (buildSpec fp) ''cache'' = None \<and>
           lookupPath (buildSpec fp) [''phases'', ''install'', ''commands''] =
             Some (JArray [JString ''npm ci'']))"
proof -
  obtain out stack' where run: "definePipeline usedStack exampleProps = Inr (out, stack')"
    using definePipeline_returns [of usedStack exampleProps]
    by (auto simp: usedStack_fresh)
  show ?thesis
    by (rule exI [of _ out], rule exI [of _ stack'], rule conjI, rule run,
        rule build_cache_asymmetry [OF run])
qed

end
